theory Spec2Isabelle
  imports Main
begin

section \<open>Python values the program handles\<close>

text \<open>
  A Python string is modelled as a \<^typ>\<open>string\<close> holding its UTF-8 bytes, so a
  character outside ASCII is two or more bytes.

  Exceptions are values. \<open>exception\<close> is an exception raised by a call into the
  generation library and caught by a handler of \<^verbatim>\<open>app.py\<close> (\<^verbatim>\<open>except Exception as e\<close>):
  the handlers use nothing of it but \<^verbatim>\<open>str(e)\<close>, which is what the value carries.
  \<open>py_error\<close> lists the exceptions that no handler of \<^verbatim>\<open>app.py\<close> catches where they
  are raised: those of the string formatter, of the PDF library and of \<^verbatim>\<open>open\<close>.
\<close>

datatype exception = Exception (exception_str: string)

datatype py_error =
    KeyError string
  | ValueError string
  | UnicodeEncodeError string
  | FileNotFoundError string

definition quote :: char where
  "quote = CHR 0x27"

text \<open>Sequencing of a computation that may raise.\<close>

fun bind_exn :: "py_error + 'a \<Rightarrow> ('a \<Rightarrow> py_error + 'b) \<Rightarrow> py_error + 'b" where
  "bind_exn (Inl e) f = Inl e"
| "bind_exn (Inr x) f = f x"

subsection \<open>Decimal rendering of integers\<close>

text \<open>\<^verbatim>\<open>str(n)\<close> and \<^verbatim>\<open>format(n, "")\<close> for a Python int.\<close>

definition digit_char :: "nat \<Rightarrow> char" where
  "digit_char n = ''0123456789'' ! n"

fun str_nat :: "nat \<Rightarrow> string" where
  "str_nat n = (if n < 10 then [digit_char n] else str_nat (n div 10) @ [digit_char (n mod 10)])"

declare str_nat.simps [simp del]

definition str_int :: "int \<Rightarrow> string" where
  "str_int i = (if i < 0 then CHR ''-'' # str_nat (nat (- i)) else str_nat (nat i))"

definition is_digit :: "char \<Rightarrow> bool" where
  "is_digit c = (c \<in> set ''0123456789'')"

text \<open>Reading a decimal numeral back (used to state what a rendering denotes).\<close>

definition digit_val :: "char \<Rightarrow> nat" where
  "digit_val c = of_char c - 48"

definition read_nat :: "string \<Rightarrow> nat" where
  "read_nat s = foldl (\<lambda>acc c. 10 * acc + digit_val c) 0 s"

section \<open>The prompt template (lines 30--38)\<close>

text \<open>
  \<^verbatim>\<open>workout_prompt.format(**kwargs)\<close> hands the template and the keyword arguments to
  Python's string formatter. The template uses literal text and named replacement
  fields \<^verbatim>\<open>{name}\<close> only, and \<open>vformat\<close> covers that part of the format-string
  syntax: it scans the template from left to right, copies literal characters, and at
  the end of a field looks its name up in the keyword arguments. The second argument is
  the field name read so far (\<open>None\<close> outside a field). The substituted values are not
  scanned again. A name that is missing raises \<^verbatim>\<open>KeyError\<close>, an unbalanced brace
  \<^verbatim>\<open>ValueError\<close>.
\<close>

fun vformat :: "(string \<rightharpoonup> string) \<Rightarrow> string option \<Rightarrow> string \<Rightarrow> py_error + string" where
  "vformat kwargs None [] = Inr []"
| "vformat kwargs (Some name) [] =
     Inl (ValueError (''expected '' @ [quote] @ ''}'' @ [quote] @ '' before end of string''))"
| "vformat kwargs None (c # cs) =
     (if c = CHR ''{'' then vformat kwargs (Some []) cs
      else if c = CHR ''}'' then
        Inl (ValueError (''Single '' @ [quote] @ ''}'' @ [quote] @ '' encountered in format string''))
      else map_sum id ((#) c) (vformat kwargs None cs))"
| "vformat kwargs (Some name) (c # cs) =
     (if c = CHR ''}'' then
        (case kwargs name of
           None \<Rightarrow> Inl (KeyError name)
         | Some v \<Rightarrow> map_sum id ((@) v) (vformat kwargs None cs))
      else vformat kwargs (Some (name @ [c])) cs)"

definition template :: string where
  "template =
     ''Create a personalized workout plan for a {fitness_level} individual '' @
     ''whose goal is {goal}. The workout should last {duration} minutes '' @
     ''and use {equipment} equipment. Provide step-by-step exercises with '' @
     ''sets, reps, and rest intervals.''"

text \<open>
  The call of lines 42--47: the four keyword arguments, the duration (an int) rendered
  by the formatter.
\<close>

definition workout_prompt_format :: "string \<Rightarrow> string \<Rightarrow> int \<Rightarrow> string \<Rightarrow> py_error + string" where
  "workout_prompt_format fitness_level goal duration equipment =
     vformat
       [''fitness_level'' \<mapsto> fitness_level,
        ''goal'' \<mapsto> goal,
        ''duration'' \<mapsto> str_int duration,
        ''equipment'' \<mapsto> equipment]
       None template"

section \<open>Effects\<close>

text \<open>
  What a run of the script does to the outside, in the order it does it: the Streamlit
  calls that put something on the page, and the request sent to the generation service.
  A marker such as the cross mark of the error messages is written as its UTF-8 bytes.
\<close>

datatype pdf_op =
    Add_page
  | Set_font string nat
  | Cell nat nat string bool string
  | Ln nat
  | Multi_cell nat nat string

datatype effect =
    St_error string
  | St_spinner string
  | St_success string
  | St_subheader string
  | St_markdown string
  | St_write string
  | St_expander string
  | St_download_button string "pdf_op list" string string
  | Generate_content string

definition cross_mark :: string where
  "cross_mark = [CHR 0xE2, CHR 0x9D, CHR 0x8C]"

definition check_mark :: string where
  "check_mark = [CHR 0xE2, CHR 0x9C, CHR 0x85]"

section \<open>Module initialisation (lines 10--27)\<close>



section \<open>The generation client (lines 41--53)\<close>

text \<open>
  \<open>model prompt\<close> is the outcome of \<^verbatim>\<open>model.generate_content(prompt).text\<close>: the text
  of the response, or the exception raised on the way. The prompt is built outside the
  \<^verbatim>\<open>try\<close>, so an exception of the formatter would leave the function uncaught.
\<close>

definition generate_workout ::
  "(string \<Rightarrow> exception + string) \<Rightarrow> string \<Rightarrow> string \<Rightarrow> int \<Rightarrow> string \<Rightarrow>
   py_error + (string \<times> effect list)" where
  "generate_workout model fitness_level goal duration equipment =
     bind_exn (workout_prompt_format fitness_level goal duration equipment) (\<lambda>prompt.
       case model prompt of
         Inr response_text \<Rightarrow> Inr (response_text, [Generate_content prompt])
       | Inl e \<Rightarrow>
           Inr (''An error occurred: '' @ exception_str e,
                [Generate_content prompt,
                 St_error (cross_mark @ '' Error generating workout: '' @ exception_str e)]))"

section \<open>Clock readings and \<^verbatim>\<open>strftime\<close>\<close>

text \<open>
  A naive \<^verbatim>\<open>datetime\<close> as \<^verbatim>\<open>datetime.now()\<close> returns it: the local wall-clock time,
  with no time zone attached. \<open>valid_datetime\<close> is the range check of Python's
  constructor.
\<close>

record datetime =
  year :: nat
  month :: nat
  day :: nat
  hour :: nat
  minute :: nat
  second :: nat
  microsecond :: nat

definition is_leap :: "nat \<Rightarrow> bool" where
  "is_leap y = (y mod 4 = 0 \<and> (y mod 100 \<noteq> 0 \<or> y mod 400 = 0))"

definition days_in_month :: "nat \<Rightarrow> nat \<Rightarrow> nat" where
  "days_in_month y m =
     (if m = 2 then (if is_leap y then 29 else 28)
      else if m = 4 \<or> m = 6 \<or> m = 9 \<or> m = 11 then 30 else 31)"

definition valid_datetime :: "datetime \<Rightarrow> bool" where
  "valid_datetime dt =
     (1 \<le> year dt \<and> year dt \<le> 9999 \<and> 1 \<le> month dt \<and> month dt \<le> 12 \<and>
      1 \<le> day dt \<and> day dt \<le> days_in_month (year dt) (month dt) \<and>
      hour dt < 24 \<and> minute dt < 60 \<and> second dt < 60 \<and> microsecond dt < 1000000)"

text \<open>
  The position of a reading on the time line, in microseconds since the start of
  0001-01-01, as Python's subtraction of two naive datetimes measures it. The table of
  \<open>days_before_month\<close> is read for months 1 to 12 only, which \<open>valid_datetime\<close> ensures.
\<close>

definition days_before_year :: "nat \<Rightarrow> nat" where
  "days_before_year y =
     (y - 1) * 365 + (y - 1) div 4 - (y - 1) div 100 + (y - 1) div 400"

definition days_before_month :: "nat \<Rightarrow> nat \<Rightarrow> nat" where
  "days_before_month y m =
     [0, 0, 31, 59, 90, 120, 151, 181, 212, 243, 273, 304, 334] ! m
       + (if 2 < m \<and> is_leap y then 1 else 0)"

definition toordinal :: "datetime \<Rightarrow> nat" where
  "toordinal dt = days_before_year (year dt) + days_before_month (year dt) (month dt) + day dt"

definition total_microseconds :: "datetime \<Rightarrow> nat" where
  "total_microseconds dt =
     (((toordinal dt * 24 + hour dt) * 60 + minute dt) * 60 + second dt) * 1000000
       + microsecond dt"

text \<open>
  \<^verbatim>\<open>strftime\<close> for the directives the program uses, each a zero-padded decimal
  number; any other character pair is copied.
\<close>

definition zpad :: "nat \<Rightarrow> nat \<Rightarrow> string" where
  "zpad width n = replicate (width - length (str_nat n)) (CHR ''0'') @ str_nat n"

definition directive :: "char \<Rightarrow> datetime \<Rightarrow> string" where
  "directive c dt =
     (if c = CHR ''Y'' then zpad 4 (year dt)
      else if c = CHR ''m'' then zpad 2 (month dt)
      else if c = CHR ''d'' then zpad 2 (day dt)
      else if c = CHR ''H'' then zpad 2 (hour dt)
      else if c = CHR ''M'' then zpad 2 (minute dt)
      else if c = CHR ''S'' then zpad 2 (second dt)
      else if c = CHR ''%'' then ''%''
      else [CHR ''%'', c])"

fun strftime :: "string \<Rightarrow> datetime \<Rightarrow> string" where
  "strftime [] dt = []"
| "strftime [c] dt = [c]"
| "strftime (c # d # cs) dt =
     (if c = CHR ''%'' then directive d dt @ strftime cs dt
      else c # strftime (d # cs) dt)"

declare strftime.simps [simp del]

text \<open>
  \<^verbatim>\<open>datetime.now()\<close> converts the system time, the seconds since 1970-01-01 00:00 UTC, to
  local time. A reading is therefore a valid datetime that is not before the epoch,
  which in local time lies in 1969 west of Greenwich. For such a year \<^verbatim>\<open>%Y\<close> gives its
  four digits on every platform (a year before 1000 is padded on some and not on
  others).
\<close>

definition clock_reading :: "datetime \<Rightarrow> bool" where
  "clock_reading dt = (valid_datetime dt \<and> 1969 \<le> year dt)"

text \<open>
  A clock gives the reading of \<^verbatim>\<open>datetime.now()\<close> for a call made at an instant, the
  instant counted in microseconds since the epoch. \<open>new_york_2024_11_03\<close> is the local
  clock of a machine in the zone America/New\_York on 3 November 2024, for the instants
  from 04:00 UTC (local midnight) to 05:00 UTC of the next day: daylight saving time
  ends at 06:00 UTC, when the wall clock goes from 02:00 back to 01:00.
\<close>

type_synonym clock = "nat \<Rightarrow> datetime"

definition new_york_2024_11_03 :: clock where
  "new_york_2024_11_03 t =
     (let s = t div 1000000 - 1730606400;
          wall = (if s < 7200 then s else s - 3600)
      in \<lparr>year = 2024, month = 11, day = 3,
          hour = wall div 3600, minute = wall div 60 mod 60, second = wall mod 60,
          microsecond = t mod 1000000\<rparr>)"

section \<open>The document renderer (lines 56--73)\<close>

text \<open>
  The \<^verbatim>\<open>FPDF\<close> object is the list of drawing calls made on it, in order (a cell carries
  its width, height, text, the \<^verbatim>\<open>ln\<close> flag and the alignment): \<open>workout_pdf\<close> is the
  object after lines 57--69, and \<open>doc_text\<close> the text it holds, call by call.
\<close>

record entry =
  entry_plan :: string
  entry_fitness_level :: string
  entry_goal :: string
  entry_duration :: int
  entry_equipment :: string
  entry_date :: string

record world =
  workout_history :: "entry list option"
  disk :: "string \<rightharpoonup> pdf_op list"

definition workout_pdf :: "string \<Rightarrow> string \<Rightarrow> string \<Rightarrow> int \<Rightarrow> string \<Rightarrow> pdf_op list" where
  "workout_pdf workout_plan fitness_level goal duration equipment =
     [Add_page,
      Set_font ''Arial'' 12,
      Cell 200 10 ''Personalized Workout Plan'' True ''C'',
      Ln 10,
      Cell 200 10 (''Fitness Level: '' @ fitness_level) True [],
      Cell 200 10 (''Goal: '' @ goal) True [],
      Cell 200 10 (''Duration: '' @ str_int duration @ '' minutes'') True [],
      Cell 200 10 (''Equipment: '' @ equipment) True [],
      Ln 10,
      Multi_cell 0 10 workout_plan]"

fun op_text :: "pdf_op \<Rightarrow> string list" where
  "op_text (Cell w h txt ln align) = [txt]"
| "op_text (Multi_cell w h txt) = [txt]"
| "op_text Add_page = []"
| "op_text (Set_font family sz) = []"
| "op_text (Ln h) = []"

definition doc_text :: "pdf_op list \<Rightarrow> string list" where
  "doc_text pdf = concat (map op_text pdf)"

text \<open>
  Arial (line 59) is a core font of the PDF library and holds the characters of Latin-1
  only. When a text of the document has any other character, the library raises
  instead of writing the file: \<^verbatim>\<open>pdf.output\<close> (line 72) raises \<^verbatim>\<open>UnicodeEncodeError\<close>
  when it encodes the pages, or, in the later releases of the library, the drawing call
  itself raises its own encoding exception. Either way \<^verbatim>\<open>create_pdf\<close> raises and no file
  is written. A character lies outside Latin-1 (above U+00FF) exactly when its UTF-8
  encoding starts with a byte from \<open>0xC4\<close> up, which is what \<open>latin1\<close> tests.

  Otherwise \<^verbatim>\<open>pdf.output\<close> stores the document under the file name. \<open>now\<close> is the reading
  of \<^verbatim>\<open>datetime.now()\<close> at line 71.
\<close>

definition latin1 :: "string \<Rightarrow> bool" where
  "latin1 s = list_all (\<lambda>c. (of_char c :: nat) < 196) s"

definition create_pdf ::
  "datetime \<Rightarrow> world \<Rightarrow> string \<Rightarrow> string \<Rightarrow> string \<Rightarrow> int \<Rightarrow> string \<Rightarrow>
   py_error + (string \<times> world)" where
  "create_pdf now w workout_plan fitness_level goal duration equipment =
     (let pdf = workout_pdf workout_plan fitness_level goal duration equipment in
      case find (\<lambda>txt. \<not> latin1 txt) (doc_text pdf) of
        Some txt \<Rightarrow> Inl (UnicodeEncodeError txt)
      | None \<Rightarrow>
          (let filename = ''Workout_Plan_'' @ strftime ''%Y%m%d_%H%M%S'' now @ ''.pdf''
           in Inr (filename, w\<lparr>disk := (disk w)(filename \<mapsto> pdf)\<rparr>)))"

section \<open>The page (lines 103--147)\<close>

text \<open>
  The sidebar widgets. A select box returns one of its options (lines 105, 106, 108).
\<close>

definition fitness_levels :: "string list" where
  "fitness_levels = [''Beginner'', ''Intermediate'', ''Advanced'']"

definition goals :: "string list" where
  "goals = [''Weight Loss'', ''Muscle Gain'', ''Endurance'', ''General Fitness'']"

definition equipments :: "string list" where
  "equipments = [''Bodyweight'', ''Dumbbells'', ''Gym Equipment'', ''Resistance Bands'']"

text \<open>
  Modelled from the spec: the number input of line 107 is a widget of the Streamlit
  library, whose code is not part of the repository. The spec gives the field as
  ``duration (integer, 10--120 step 5)'' and says that the inputs are ``pre-constrained
  by the form to valid enum members and a bounded integer''; the source passes
  \<^verbatim>\<open>min_value=10, max_value=120, value=30, step=5\<close>. The widget starts at the initial
  value, its stepper buttons add or subtract the step while the result stays within the
  bounds, and a typed number is committed only when it lies within the bounds. This
  holds for \<open>number_event\<close>, \<open>number_input_step\<close>, \<open>number_input\<close> and \<open>duration_input\<close>.
\<close>

datatype number_event = Increment | Decrement | Commit int

fun number_input_step :: "int \<Rightarrow> int \<Rightarrow> int \<Rightarrow> int \<Rightarrow> number_event \<Rightarrow> int" where
  "number_input_step min_value max_value step v Increment =
     (if v + step \<le> max_value then v + step else v)"
| "number_input_step min_value max_value step v Decrement =
     (if min_value \<le> v - step then v - step else v)"
| "number_input_step min_value max_value step v (Commit x) =
     (if min_value \<le> x \<and> x \<le> max_value then x else v)"

definition number_input :: "int \<Rightarrow> int \<Rightarrow> int \<Rightarrow> int \<Rightarrow> number_event list \<Rightarrow> int" where
  "number_input min_value max_value initial step events =
     foldl (number_input_step min_value max_value step) initial events"

definition duration_input :: "number_event list \<Rightarrow> int" where
  "duration_input events = number_input 10 120 30 5 events"

text \<open>
  The session state holds the history under the key \<^verbatim>\<open>workout_history\<close> (\<open>None\<close>
  while the key is absent); an entry is the dictionary of lines 117--124.
\<close>

definition history :: "world \<Rightarrow> entry list" where
  "history w = (case workout_history w of None \<Rightarrow> [] | Some h \<Rightarrow> h)"

fun history_entries :: "nat \<Rightarrow> entry list \<Rightarrow> effect list" where
  "history_entries i [] = []"
| "history_entries i (entry # rest) =
     [St_expander (''Workout '' @ str_nat (i + 1) @ '' - '' @ entry_date entry),
      St_write (''**Fitness Level:** '' @ entry_fitness_level entry),
      St_write (''**Goal:** '' @ entry_goal entry),
      St_write (''**Duration:** '' @ str_int (entry_duration entry) @ '' minutes''),
      St_write (''**Equipment:** '' @ entry_equipment entry),
      St_markdown (entry_plan entry)]
     @ history_entries (i + 1) rest"

definition history_view :: "entry list \<Rightarrow> effect list" where
  "history_view h =
     (if h = [] then [] else St_subheader ''Workout History'' # history_entries 0 h)"

text \<open>
  One run of \<^verbatim>\<open>main\<close> from line 103 on (the style block, the title and the sidebar
  header before it do not depend on any state). The widget values are arguments;
  \<open>now1\<close> and \<open>now2\<close> are the clock readings at line 123 and, inside \<^verbatim>\<open>create_pdf\<close>, at
  line 71. The result says how the run ended, and gives the world it left and what it
  had put on the page by then. An exception that no handler catches ends the run where
  it is raised: the changes made before it stay (the session state is changed in
  place), and nothing after it is shown. Nothing around the call of line 130 catches an
  exception of \<^verbatim>\<open>create_pdf\<close>.
\<close>

datatype outcome = Completed | Stopped | Uncaught py_error

definition main ::
  "(string \<Rightarrow> exception + string) \<Rightarrow> datetime \<Rightarrow> datetime \<Rightarrow>
   string \<Rightarrow> string \<Rightarrow> int \<Rightarrow> string \<Rightarrow> bool \<Rightarrow> world \<Rightarrow> outcome \<times> world \<times> effect list" where
  "main model now1 now2 fitness_level goal duration equipment generate_button w0 =
     (let w1 = (if workout_history w0 = None then w0\<lparr>workout_history := Some []\<rparr> else w0) in
      if generate_button then
        (case generate_workout model fitness_level goal duration equipment of
           Inl err \<Rightarrow> (Uncaught err, w1, [St_spinner ''Generating your workout plan...''])
         | Inr (workout_plan, fx) \<Rightarrow>
             (let w2 = w1\<lparr>workout_history := Some (history w1 @
                        [\<lparr>entry_plan = workout_plan,
                          entry_fitness_level = fitness_level,
                          entry_goal = goal,
                          entry_duration = duration,
                          entry_equipment = equipment,
                          entry_date = strftime ''%Y-%m-%d %H:%M:%S'' now1\<rparr>])\<rparr>;
                  shown =
                    [St_spinner ''Generating your workout plan...''] @ fx @
                    [St_success (check_mark @ '' Workout plan generated successfully!''),
                     St_subheader ''Your Workout Plan'',
                     St_markdown workout_plan]
              in case create_pdf now2 w2 workout_plan fitness_level goal duration equipment of
                   Inl err \<Rightarrow> (Uncaught err, w2, shown)
                 | Inr (pdf_file, w3) \<Rightarrow>
                     (case disk w3 pdf_file of
                        None \<Rightarrow> (Uncaught (FileNotFoundError pdf_file), w3, shown)
                      | Some file \<Rightarrow>
                          (Completed, w3,
                           shown @
                           [St_download_button ''Download as PDF'' file pdf_file
                              ''application/pdf'']
                           @ history_view (history w3)))))
      else (Completed, w1, history_view (history w1)))"


section \<open>Observations used in the statements\<close>

text \<open>The prompts sent to the generation service during a run, in order.\<close>

fun request_of :: "effect \<Rightarrow> string list" where
  "request_of (Generate_content prompt) = [prompt]"
| "request_of other = []"

definition requests :: "effect list \<Rightarrow> string list" where
  "requests fx = concat (map request_of fx)"

section \<open>Decimal numerals\<close>

lemma lt_10_cases: "n < 10 \<Longrightarrow> n \<in> {0, 1, 2, 3, 4, 5, 6, 7, 8, 9::nat}"
  by auto

lemma digit_val_digit_char: "n < 10 \<Longrightarrow> digit_val (digit_char n) = n"
  using lt_10_cases [of n] by (auto simp: digit_char_def digit_val_def)

lemma is_digit_digit_char: "n < 10 \<Longrightarrow> is_digit (digit_char n)"
  using lt_10_cases [of n] by (auto simp: digit_char_def is_digit_def)

lemma digit_char_inject: "a < 10 \<Longrightarrow> b < 10 \<Longrightarrow> digit_char a = digit_char b \<Longrightarrow> a = b"
  by (metis digit_val_digit_char)

lemma digit_char_0: "digit_char 0 = CHR ''0''"
  by (simp add: digit_char_def)

lemma is_digit_str_nat: "list_all is_digit (str_nat n)"
proof (induction n rule: str_nat.induct)
  case (1 n)
  show ?case
  proof (cases "n < 10")
    case True
    then show ?thesis by (simp add: str_nat.simps [of n] is_digit_digit_char)
  next
    case False
    with 1 show ?thesis by (simp add: str_nat.simps [of n] is_digit_digit_char)
  qed
qed

lemma read_nat_str_nat: "read_nat (str_nat n) = n"
proof (induction n rule: str_nat.induct)
  case (1 n)
  show ?case
  proof (cases "n < 10")
    case True
    then show ?thesis by (simp add: str_nat.simps [of n] read_nat_def digit_val_digit_char)
  next
    case False
    with 1 have "read_nat (str_nat (n div 10)) = n div 10" by simp
    with False show ?thesis
      by (simp add: str_nat.simps [of n] read_nat_def digit_val_digit_char)
  qed
qed

lemma str_nat_1: "n < 10 \<Longrightarrow> str_nat n = [digit_char n]"
  by (simp add: str_nat.simps [of n])

lemma str_nat_2: "10 \<le> n \<Longrightarrow> n < 100 \<Longrightarrow> str_nat n = [digit_char (n div 10), digit_char (n mod 10)]"
  by (simp add: str_nat.simps [of n] str_nat_1)

lemma str_nat_3: "100 \<le> n \<Longrightarrow> n < 1000 \<Longrightarrow>
  str_nat n = [digit_char (n div 100), digit_char (n div 10 mod 10), digit_char (n mod 10)]"
  by (simp add: str_nat.simps [of n] str_nat_2 div_mult2_eq [symmetric])

lemma str_nat_4: "1000 \<le> n \<Longrightarrow> n < 10000 \<Longrightarrow>
  str_nat n = [digit_char (n div 1000), digit_char (n div 100 mod 10),
               digit_char (n div 10 mod 10), digit_char (n mod 10)]"
  by (simp add: str_nat.simps [of n] str_nat_3 div_mult2_eq [symmetric])

lemma zpad_2: "n < 100 \<Longrightarrow> zpad 2 n = [digit_char (n div 10), digit_char (n mod 10)]"
  by (cases "n < 10") (simp_all add: zpad_def str_nat_1 str_nat_2 digit_char_0)

lemma zpad_4: "1000 \<le> n \<Longrightarrow> n < 10000 \<Longrightarrow>
  zpad 4 n = [digit_char (n div 1000), digit_char (n div 100 mod 10),
              digit_char (n div 10 mod 10), digit_char (n mod 10)]"
  by (simp add: zpad_def str_nat_4)

section \<open>Time stamps\<close>

lemma strftime_file: "strftime ''%Y%m%d_%H%M%S'' dt =
   zpad 4 (year dt) @ zpad 2 (month dt) @ zpad 2 (day dt) @ ''_'' @
   zpad 2 (hour dt) @ zpad 2 (minute dt) @ zpad 2 (second dt)"
  by (simp add: strftime.simps directive_def)

lemma strftime_entry: "strftime ''%Y-%m-%d %H:%M:%S'' dt =
   zpad 4 (year dt) @ ''-'' @ zpad 2 (month dt) @ ''-'' @ zpad 2 (day dt) @ '' '' @
   zpad 2 (hour dt) @ '':'' @ zpad 2 (minute dt) @ '':'' @ zpad 2 (second dt)"
  by (simp add: strftime.simps directive_def)

section \<open>Prompt construction and the generation client\<close>

lemma vformat_template:
  "kw ''fitness_level'' = Some a \<Longrightarrow> kw ''goal'' = Some b \<Longrightarrow> kw ''duration'' = Some c \<Longrightarrow>
   kw ''equipment'' = Some d \<Longrightarrow>
   vformat kw None template =
     Inr (''Create a personalized workout plan for a '' @ a @ '' individual whose goal is '' @ b @
          ''. The workout should last '' @ c @ '' minutes and use '' @ d @
          '' equipment. Provide step-by-step exercises with sets, reps, and rest intervals.'')"
  by (simp add: template_def)

lemma workout_prompt_format_total: "\<exists>prompt. workout_prompt_format fl g d e = Inr prompt"
  unfolding workout_prompt_format_def by (rule exI, rule vformat_template) simp_all

lemma generate_workout_Inr:
  "workout_prompt_format fl g d e = Inr prompt \<Longrightarrow> model prompt = Inr response_text \<Longrightarrow>
   generate_workout model fl g d e = Inr (response_text, [Generate_content prompt])"
  by (simp add: generate_workout_def)

lemma generate_workout_Inl:
  "workout_prompt_format fl g d e = Inr prompt \<Longrightarrow> model prompt = Inl err \<Longrightarrow>
   generate_workout model fl g d e =
     Inr (''An error occurred: '' @ exception_str err,
          [Generate_content prompt,
           St_error (cross_mark @ '' Error generating workout: '' @ exception_str err)])"
  by (simp add: generate_workout_def)

lemma generate_workout_total: "\<exists>plan fx. generate_workout model fl g d e = Inr (plan, fx)"
proof -
  obtain prompt where p: "workout_prompt_format fl g d e = Inr prompt"
    using workout_prompt_format_total by blast
  show ?thesis
  proof (cases "model prompt")
    case (Inl err)
    with p show ?thesis by (simp add: generate_workout_Inl)
  next
    case (Inr response_text)
    with p show ?thesis by (simp add: generate_workout_Inr)
  qed
qed

section \<open>Runs of the page\<close>

lemma history_update:
  "history (w\<lparr>workout_history := Some h, disk := d\<rparr>) = h"
  "history (w\<lparr>workout_history := Some h\<rparr>) = h"
  by (simp_all add: history_def)

lemma history_init:
  "history (if workout_history w = None then w\<lparr>workout_history := Some []\<rparr> else w) = history w"
  by (simp add: history_def)

lemma history_fresh: "workout_history w = None \<Longrightarrow> history w = []"
  by (simp add: history_def)

lemma doc_text_workout_pdf:
  "doc_text (workout_pdf plan fl g d e) =
     [''Personalized Workout Plan'', ''Fitness Level: '' @ fl, ''Goal: '' @ g,
      ''Duration: '' @ str_int d @ '' minutes'', ''Equipment: '' @ e, plan]"
  by (simp add: doc_text_def workout_pdf_def)

lemma find_SomeD: "find P xs = Some x \<Longrightarrow> x \<in> set xs \<and> P x"
  by (induction xs) (auto split: if_splits)

lemma create_pdf_latin1:
  "list_all latin1 (doc_text (workout_pdf plan fl g d e)) \<Longrightarrow>
   create_pdf now w plan fl g d e =
     Inr (''Workout_Plan_'' @ strftime ''%Y%m%d_%H%M%S'' now @ ''.pdf'',
          w\<lparr>disk := (disk w)(''Workout_Plan_'' @ strftime ''%Y%m%d_%H%M%S'' now @ ''.pdf'' \<mapsto>
                      workout_pdf plan fl g d e)\<rparr>)"
  by (simp add: create_pdf_def Let_def find_None_iff list_all_iff split: option.split)

lemma create_pdf_raises:
  "\<not> list_all latin1 (doc_text (workout_pdf plan fl g d e)) \<Longrightarrow>
   \<exists>txt. create_pdf now w plan fl g d e = Inl (UnicodeEncodeError txt) \<and> \<not> latin1 txt"
  by (auto simp: create_pdf_def Let_def find_None_iff list_all_iff split: option.split
      dest: find_SomeD)

lemma create_pdf_Inr:
  "create_pdf now w plan fl g d e = Inr (name, w') \<Longrightarrow>
   name = ''Workout_Plan_'' @ strftime ''%Y%m%d_%H%M%S'' now @ ''.pdf'' \<and>
   w' = w\<lparr>disk := (disk w)(name \<mapsto> workout_pdf plan fl g d e)\<rparr> \<and>
   list_all latin1 (doc_text (workout_pdf plan fl g d e))"
  by (auto simp: create_pdf_def Let_def find_None_iff list_all_iff split: option.splits)

lemma create_pdf_Inl:
  "create_pdf now w plan fl g d e = Inl err \<Longrightarrow>
   \<not> list_all latin1 (doc_text (workout_pdf plan fl g d e))"
  by (auto simp: create_pdf_def Let_def list_all_iff split: option.splits dest: find_SomeD)

lemma requests_Nil: "requests [] = []"
  by (simp add: requests_def)

lemma requests_Cons: "requests (x # xs) = request_of x @ requests xs"
  by (simp add: requests_def)

lemma requests_append: "requests (xs @ ys) = requests xs @ requests ys"
  by (simp add: requests_def)

lemma requests_history_entries: "requests (history_entries i h) = []"
  by (induction h arbitrary: i) (simp_all add: requests_def)

lemma requests_history_view: "requests (history_view h) = []"
  using requests_history_entries [of 0 h] by (simp add: history_view_def requests_def)

lemma history_entries_append:
  "history_entries i (h @ h') = history_entries i h @ history_entries (i + length h) h'"
  by (induction h arbitrary: i) simp_all

lemma history_view_last_duration:
  "St_write (''**Duration:** '' @ str_int (entry_duration entry) @ '' minutes'')
     \<in> set (history_view (h @ [entry]))"
  by (simp add: history_view_def history_entries_append)

lemma history_view_last_plan:
  "St_markdown (entry_plan entry) \<in> set (history_view (h @ [entry]))"
  by (simp add: history_view_def history_entries_append)

lemma main_idle:
  "main model now1 now2 fl g d e False w =
     (Completed, w\<lparr>workout_history := Some (history w)\<rparr>, history_view (history w))"
  by (cases "workout_history w") (simp_all add: main_def history_def Let_def)

lemma main_submit_completed:
  assumes "generate_workout model fl g d e = Inr (plan, gfx)"
    and "list_all latin1 (doc_text (workout_pdf plan fl g d e))"
  shows "main model now1 now2 fl g d e True w =
    (Completed,
     w\<lparr>workout_history := Some (history w @
              [\<lparr>entry_plan = plan, entry_fitness_level = fl, entry_goal = g,
                entry_duration = d, entry_equipment = e,
                entry_date = strftime ''%Y-%m-%d %H:%M:%S'' now1\<rparr>]),
        disk := (disk w)(''Workout_Plan_'' @ strftime ''%Y%m%d_%H%M%S'' now2 @ ''.pdf'' \<mapsto>
                      workout_pdf plan fl g d e)\<rparr>,
     [St_spinner ''Generating your workout plan...''] @ gfx @
     [St_success (check_mark @ '' Workout plan generated successfully!''),
      St_subheader ''Your Workout Plan'',
      St_markdown plan,
      St_download_button ''Download as PDF'' (workout_pdf plan fl g d e)
        (''Workout_Plan_'' @ strftime ''%Y%m%d_%H%M%S'' now2 @ ''.pdf'') ''application/pdf''] @
     history_view (history w @
              [\<lparr>entry_plan = plan, entry_fitness_level = fl, entry_goal = g,
                entry_duration = d, entry_equipment = e,
                entry_date = strftime ''%Y-%m-%d %H:%M:%S'' now1\<rparr>]))"
  using assms by (simp add: main_def create_pdf_latin1 Let_def history_def)

lemma main_submit_uncaught:
  assumes "generate_workout model fl g d e = Inr (plan, gfx)"
    and "\<not> list_all latin1 (doc_text (workout_pdf plan fl g d e))"
  shows "\<exists>txt. \<not> latin1 txt \<and> main model now1 now2 fl g d e True w =
    (Uncaught (UnicodeEncodeError txt),
     w\<lparr>workout_history := Some (history w @
              [\<lparr>entry_plan = plan, entry_fitness_level = fl, entry_goal = g,
                entry_duration = d, entry_equipment = e,
                entry_date = strftime ''%Y-%m-%d %H:%M:%S'' now1\<rparr>])\<rparr>,
     [St_spinner ''Generating your workout plan...''] @ gfx @
     [St_success (check_mark @ '' Workout plan generated successfully!''),
      St_subheader ''Your Workout Plan'',
      St_markdown plan])"
proof -
  let ?w1 = "if workout_history w = None then w\<lparr>workout_history := Some []\<rparr> else w"
  let ?w2 = "?w1\<lparr>workout_history := Some (history ?w1 @
              [\<lparr>entry_plan = plan, entry_fitness_level = fl, entry_goal = g,
                entry_duration = d, entry_equipment = e,
                entry_date = strftime ''%Y-%m-%d %H:%M:%S'' now1\<rparr>])\<rparr>"
  from create_pdf_raises [OF assms(2), of now2 "?w2"] obtain bad
    where "create_pdf now2 ?w2 plan fl g d e = Inl (UnicodeEncodeError bad)" and "\<not> latin1 bad"
    by blast
  with assms(1) show ?thesis
    by (intro exI [of _ bad]) (simp add: main_def Let_def history_def)
qed

lemma main_submit:
  assumes "generate_workout model fl g d e = Inr (plan, gfx)"
  shows "\<exists>oc w' rest. main model now1 now2 fl g d e True w =
      (oc, w',
       [St_spinner ''Generating your workout plan...''] @ gfx @
       [St_success (check_mark @ '' Workout plan generated successfully!''),
        St_subheader ''Your Workout Plan'',
        St_markdown plan] @ rest) \<and>
     requests rest = [] \<and>
     history w' = history w @
       [\<lparr>entry_plan = plan, entry_fitness_level = fl, entry_goal = g,
         entry_duration = d, entry_equipment = e,
         entry_date = strftime ''%Y-%m-%d %H:%M:%S'' now1\<rparr>]"
proof (cases "list_all latin1 (doc_text (workout_pdf plan fl g d e))")
  case True
  show ?thesis
    unfolding main_submit_completed [OF assms True]
    by (intro exI [of _ Completed] exI [of _ "w\<lparr>workout_history := Some (history w @
              [\<lparr>entry_plan = plan, entry_fitness_level = fl, entry_goal = g,
                entry_duration = d, entry_equipment = e,
                entry_date = strftime ''%Y-%m-%d %H:%M:%S'' now1\<rparr>]),
        disk := (disk w)(''Workout_Plan_'' @ strftime ''%Y%m%d_%H%M%S'' now2 @ ''.pdf'' \<mapsto>
                      workout_pdf plan fl g d e)\<rparr>"]
        exI [of _ "[St_download_button ''Download as PDF'' (workout_pdf plan fl g d e)
        (''Workout_Plan_'' @ strftime ''%Y%m%d_%H%M%S'' now2 @ ''.pdf'') ''application/pdf''] @
     history_view (history w @
              [\<lparr>entry_plan = plan, entry_fitness_level = fl, entry_goal = g,
                entry_duration = d, entry_equipment = e,
                entry_date = strftime ''%Y-%m-%d %H:%M:%S'' now1\<rparr>])"])
      (simp add: requests_Cons requests_history_view history_update)
next
  case False
  from main_submit_uncaught [OF assms False, of now1 now2 w] obtain bad where
    m: "main model now1 now2 fl g d e True w =
    (Uncaught (UnicodeEncodeError bad),
     w\<lparr>workout_history := Some (history w @
              [\<lparr>entry_plan = plan, entry_fitness_level = fl, entry_goal = g,
                entry_duration = d, entry_equipment = e,
                entry_date = strftime ''%Y-%m-%d %H:%M:%S'' now1\<rparr>])\<rparr>,
     [St_spinner ''Generating your workout plan...''] @ gfx @
     [St_success (check_mark @ '' Workout plan generated successfully!''),
      St_subheader ''Your Workout Plan'',
      St_markdown plan])" by blast
  show ?thesis
    unfolding m
    by (intro exI [of _ "Uncaught (UnicodeEncodeError bad)"] exI [of _ "w\<lparr>workout_history := Some (history w @
              [\<lparr>entry_plan = plan, entry_fitness_level = fl, entry_goal = g,
                entry_duration = d, entry_equipment = e,
                entry_date = strftime ''%Y-%m-%d %H:%M:%S'' now1\<rparr>])\<rparr>"] exI [of _ "[]"])
      (simp add: requests_Nil history_update)
qed

lemma generate_workout_requests:
  assumes "workout_prompt_format fl g d e = Inr prompt"
  shows "\<exists>plan gfx. generate_workout model fl g d e = Inr (plan, gfx) \<and> requests gfx = [prompt] \<and>
           hd gfx = Generate_content prompt \<and> gfx \<noteq> []"
proof (cases "model prompt")
  case (Inl err)
  from generate_workout_Inl [where model = model, OF assms Inl] show ?thesis
    by (simp add: requests_Cons requests_Nil)
next
  case (Inr response_text)
  from generate_workout_Inr [where model = model, OF assms Inr] show ?thesis
    by (simp add: requests_Cons requests_Nil)
qed


lemma number_input_step_bounds:
  "0 \<le> step \<Longrightarrow> min_value \<le> v \<Longrightarrow> v \<le> max_value \<Longrightarrow>
   min_value \<le> number_input_step min_value max_value step v ev \<and>
   number_input_step min_value max_value step v ev \<le> max_value"
  by (cases ev) auto

lemma number_input_bounds:
  "0 \<le> step \<Longrightarrow> min_value \<le> initial \<Longrightarrow> initial \<le> max_value \<Longrightarrow>
   min_value \<le> number_input min_value max_value initial step events \<and>
   number_input min_value max_value initial step events \<le> max_value"
  unfolding number_input_def
proof (induction events arbitrary: initial)
  case Nil
  then show ?case by simp
next
  case (Cons ev events)
  from number_input_step_bounds [OF Cons.prems, of ev] Cons.IH Cons.prems(1)
  show ?case by simp
qed

lemma duration_input_bounds: "10 \<le> duration_input events \<and> duration_input events \<le> 120"
  unfolding duration_input_def by (rule number_input_bounds) simp_all

lemma str_int_nonneg: "0 \<le> i \<Longrightarrow> str_int i = str_nat (nat i)"
  by (simp add: str_int_def)

lemma prompt_duration_part:
  "workout_prompt_format fl g d e =
     Inr ((''Create a personalized workout plan for a '' @ fl @ '' individual whose goal is '' @ g @
           ''. '') @ ''The workout should last '' @ str_int d @ '' minutes'' @
          ('' and use '' @ e @
           '' equipment. Provide step-by-step exercises with sets, reps, and rest intervals.''))"
  unfolding workout_prompt_format_def by (rule vformat_template [THEN trans]) simp_all

lemma main_idle_history:
  "\<exists>oc w' fx. main model now1 now2 fl g d e False w = (oc, w', fx) \<and> history w' = history w"
  by (simp add: main_idle history_update)

lemma read_nat_zeros: "read_nat (replicate k (CHR ''0'') @ s) = read_nat s"
proof -
  have "foldl (\<lambda>acc c. 10 * acc + digit_val c) 0 (replicate k (CHR ''0'')) = 0"
    by (induction k) (simp_all add: digit_val_def)
  then show ?thesis by (simp add: read_nat_def)
qed

lemma read_nat_zpad: "read_nat (zpad width n) = n"
  by (simp add: zpad_def read_nat_zeros read_nat_str_nat)

lemma zpad_inject: "zpad width n = zpad width m \<Longrightarrow> n = m"
  by (metis read_nat_zpad)

lemma is_digit_zpad_2: "n < 100 \<Longrightarrow> list_all is_digit (zpad 2 n)"
  by (simp add: zpad_2 is_digit_digit_char)

lemma is_digit_zpad_4: "1000 \<le> n \<Longrightarrow> n < 10000 \<Longrightarrow> list_all is_digit (zpad 4 n)"
  by (simp add: zpad_4 is_digit_digit_char)

lemma length_zpad_2: "n < 100 \<Longrightarrow> length (zpad 2 n) = 2"
  by (simp add: zpad_2)

lemma length_zpad_4: "1000 \<le> n \<Longrightarrow> n < 10000 \<Longrightarrow> length (zpad 4 n) = 4"
  by (simp add: zpad_4)

lemma days_in_month_le: "days_in_month y m \<le> 31"
  by (simp add: days_in_month_def)

lemma valid_datetime_bounds:
  assumes "valid_datetime dt"
  shows "year dt < 10000" "month dt < 100" "day dt < 100" "hour dt < 100" "minute dt < 100"
    "second dt < 100" "microsecond dt < 1000000"
proof -
  from assms have "day dt \<le> days_in_month (year dt) (month dt)"
    by (simp add: valid_datetime_def)
  with days_in_month_le [of "year dt" "month dt"] show "day dt < 100" by linarith
qed (use assms in \<open>simp_all add: valid_datetime_def\<close>)

lemma strftime_file_inject:
  assumes v: "valid_datetime dt" "1000 \<le> year dt" and v': "valid_datetime dt'" "1000 \<le> year dt'"
    and eq: "strftime ''%Y%m%d_%H%M%S'' dt = strftime ''%Y%m%d_%H%M%S'' dt'"
  shows "year dt = year dt' \<and> month dt = month dt' \<and> day dt = day dt' \<and>
         hour dt = hour dt' \<and> minute dt = minute dt' \<and> second dt = second dt'"
proof -
  note b = valid_datetime_bounds [OF v(1)] and b' = valid_datetime_bounds [OF v'(1)]
  from eq have
    "zpad 4 (year dt) = zpad 4 (year dt')" "zpad 2 (month dt) = zpad 2 (month dt')"
    "zpad 2 (day dt) = zpad 2 (day dt')" "zpad 2 (hour dt) = zpad 2 (hour dt')"
    "zpad 2 (minute dt) = zpad 2 (minute dt')" "zpad 2 (second dt) = zpad 2 (second dt')"
    using b b' v(2) v'(2) by (simp_all add: strftime_file append_eq_append_conv length_zpad_2 length_zpad_4)
  then show ?thesis
    by (auto dest: zpad_inject)
qed

lemma total_microseconds_same_second:
  assumes "year dt = year dt'" "month dt = month dt'" "day dt = day dt'"
    "hour dt = hour dt'" "minute dt = minute dt'" "second dt = second dt'"
    "microsecond dt' < 1000000"
  shows "total_microseconds dt' < total_microseconds dt + 1000000"
  using assms by (simp add: total_microseconds_def toordinal_def)

lemma clock_readingD:
  "clock_reading dt \<Longrightarrow> valid_datetime dt \<and> 1000 \<le> year dt"
  by (simp add: clock_reading_def)

lemma read_nat_zpad_parts:
  assumes "valid_datetime dt" "1000 \<le> year dt"
  defines "ymd \<equiv> zpad 4 (year dt) @ zpad 2 (month dt) @ zpad 2 (day dt)"
    and "hms \<equiv> zpad 2 (hour dt) @ zpad 2 (minute dt) @ zpad 2 (second dt)"
  shows "read_nat (take 4 ymd) = year dt" "read_nat (take 2 (drop 4 ymd)) = month dt"
    "read_nat (drop 6 ymd) = day dt" "read_nat (take 2 hms) = hour dt"
    "read_nat (take 2 (drop 2 hms)) = minute dt" "read_nat (drop 4 hms) = second dt"
    "length ymd = 8" "length hms = 6" "list_all is_digit ymd" "list_all is_digit hms"
proof -
  note b = valid_datetime_bounds [OF assms(1)]
  note l = length_zpad_4 [OF assms(2) b(1)] length_zpad_2 [OF b(2)] length_zpad_2 [OF b(3)]
    length_zpad_2 [OF b(4)] length_zpad_2 [OF b(5)] length_zpad_2 [OF b(6)]
  show "read_nat (take 4 ymd) = year dt" "read_nat (take 2 (drop 4 ymd)) = month dt"
    "read_nat (drop 6 ymd) = day dt" "read_nat (take 2 hms) = hour dt"
    "read_nat (take 2 (drop 2 hms)) = minute dt" "read_nat (drop 4 hms) = second dt"
    "length ymd = 8" "length hms = 6"
    by (simp_all add: ymd_def hms_def l read_nat_zpad)
  show "list_all is_digit ymd" "list_all is_digit hms"
    using b assms(2) by (simp_all add: ymd_def hms_def is_digit_zpad_2 is_digit_zpad_4)
qed



lemma latin1_Nil: "latin1 []"
  by (simp add: latin1_def)

lemma latin1_Cons: "latin1 (c # cs) \<longleftrightarrow> (of_char c :: nat) < 196 \<and> latin1 cs"
  by (simp add: latin1_def)

lemma latin1_append: "latin1 (xs @ ys) \<longleftrightarrow> latin1 xs \<and> latin1 ys"
  by (simp add: latin1_def)

lemma latin1_digit: "is_digit c \<Longrightarrow> (of_char c :: nat) < 196"
  by (auto simp: is_digit_def)

lemma latin1_str_nat: "latin1 (str_nat n)"
  unfolding latin1_def using is_digit_str_nat [of n] by (simp add: list_all_iff latin1_digit)

lemma latin1_str_int: "latin1 (str_int i)"
  by (simp add: str_int_def latin1_str_nat latin1_Cons)

lemma latin1_doc_text:
  "list_all latin1 (doc_text (workout_pdf plan fl g d e)) \<longleftrightarrow>
   latin1 fl \<and> latin1 g \<and> latin1 e \<and> latin1 plan"
  by (simp add: doc_text_workout_pdf latin1_append latin1_Cons latin1_Nil latin1_str_int)

lemma create_pdf_Inl_plan:
  "latin1 fl \<Longrightarrow> latin1 g \<Longrightarrow> latin1 e \<Longrightarrow> \<not> latin1 plan \<Longrightarrow>
   create_pdf now w plan fl g d e = Inl (UnicodeEncodeError plan)"
  by (simp add: create_pdf_def doc_text_workout_pdf latin1_append latin1_Cons latin1_Nil
      latin1_str_int)

lemma create_pdf_document:
  assumes "latin1 fitness_level" "latin1 goal" "latin1 equipment" "latin1 workout_plan"
  shows "\<exists>filename w1.
     create_pdf now w workout_plan fitness_level goal duration equipment = Inr (filename, w1) \<and>
     (\<exists>pdf. disk w1 filename = Some pdf \<and>
        doc_text pdf =
          [''Personalized Workout Plan'',
           ''Fitness Level: '' @ fitness_level,
           ''Goal: '' @ goal,
           ''Duration: '' @ str_int duration @ '' minutes'',
           ''Equipment: '' @ equipment,
           workout_plan])"
proof -
  from assms have "list_all latin1
      (doc_text (workout_pdf workout_plan fitness_level goal duration equipment))"
    by (simp add: latin1_doc_text)
  from create_pdf_latin1 [OF this] show ?thesis
    by (simp add: doc_text_workout_pdf)
qed

lemma main_submit_raise:
  assumes "generate_workout model fl g d e = Inr (plan, gfx)"
    and "latin1 fl" "latin1 g" "latin1 e" "\<not> latin1 plan"
  shows "main model now1 now2 fl g d e True w =
    (Uncaught (UnicodeEncodeError plan),
     w\<lparr>workout_history := Some (history w @
              [\<lparr>entry_plan = plan, entry_fitness_level = fl, entry_goal = g,
                entry_duration = d, entry_equipment = e,
                entry_date = strftime ''%Y-%m-%d %H:%M:%S'' now1\<rparr>])\<rparr>,
     [St_spinner ''Generating your workout plan...''] @ gfx @
     [St_success (check_mark @ '' Workout plan generated successfully!''),
      St_subheader ''Your Workout Plan'',
      St_markdown plan])"
  using assms by (simp add: main_def Let_def history_def create_pdf_Inl_plan)

section \<open>The prompt builder\<close>

text \<open>
  C10. For every input tuple, the prompt built at lines 42--47 is exactly the text of the
  template with \<^verbatim>\<open>{fitness_level}\<close>, \<^verbatim>\<open>{goal}\<close>, \<^verbatim>\<open>{duration}\<close> and \<^verbatim>\<open>{equipment}\<close>
  replaced by the string renderings of the four inputs (the duration in decimal). It
  holds for all strings and all integers, so in particular for the values the form
  offers.
\<close>

theorem workout_prompt_exact:
  "workout_prompt_format fitness_level goal duration equipment =
     Inr (''Create a personalized workout plan for a '' @ fitness_level @
          '' individual whose goal is '' @ goal @
          ''. The workout should last '' @ str_int duration @
          '' minutes and use '' @ equipment @
          '' equipment. Provide step-by-step exercises with sets, reps, and rest intervals.'')"
  unfolding workout_prompt_format_def by (rule vformat_template) simp_all

theorem workout_prompt_exact_witness:
  "workout_prompt_format ''Advanced'' ''Endurance'' 45 ''Dumbbells'' =
     Inr (''Create a personalized workout plan for a Advanced individual whose goal is '' @
          ''Endurance. The workout should last 45 minutes and use Dumbbells equipment. '' @
          ''Provide step-by-step exercises with sets, reps, and rest intervals.'')"
  using workout_prompt_exact [of "''Advanced''" "''Endurance''" 45 "''Dumbbells''"]
  by (simp add: str_int_def str_nat_2 digit_char_def)

text \<open>
  C2. For every input tuple the prompt is built, and it contains the literal values of
  the four inputs at the places of their placeholders: the fitness level right after
  \<^verbatim>\<open>"... plan for a "\<close>, the goal right after \<^verbatim>\<open>" individual whose goal is "\<close>, the
  duration right after \<^verbatim>\<open>". The workout should last "\<close>, and the equipment right after
  \<^verbatim>\<open>" minutes and use "\<close>.
\<close>

theorem prompt_contains_inputs:
  "\<exists>prompt r1 r2 r3 r4.
     workout_prompt_format fitness_level goal duration equipment = Inr prompt \<and>
     prompt = ''Create a personalized workout plan for a '' @ fitness_level @ r1 \<and>
     r1 = '' individual whose goal is '' @ goal @ r2 \<and>
     r2 = ''. The workout should last '' @ str_int duration @ r3 \<and>
     r3 = '' minutes and use '' @ equipment @ r4"
proof -
  have "workout_prompt_format fitness_level goal duration equipment =
     Inr (''Create a personalized workout plan for a '' @ fitness_level @
          '' individual whose goal is '' @ goal @
          ''. The workout should last '' @ str_int duration @
          '' minutes and use '' @ equipment @
          '' equipment. Provide step-by-step exercises with sets, reps, and rest intervals.'')"
    unfolding workout_prompt_format_def by (rule vformat_template) simp_all
  then show ?thesis by blast
qed

theorem prompt_contains_inputs_witness:
  "\<exists>prompt r1 r2 r3 r4.
     workout_prompt_format ''Intermediate'' ''Muscle Gain'' 60 ''Gym Equipment'' = Inr prompt \<and>
     prompt = ''Create a personalized workout plan for a '' @ ''Intermediate'' @ r1 \<and>
     r1 = '' individual whose goal is '' @ ''Muscle Gain'' @ r2 \<and>
     r2 = ''. The workout should last '' @ str_int 60 @ r3 \<and>
     r3 = '' minutes and use '' @ ''Gym Equipment'' @ r4"
  using prompt_contains_inputs [of "''Intermediate''" "''Muscle Gain''" 60 "''Gym Equipment''"]
  by simp



section \<open>The generation client\<close>

text \<open>
  C1. \<^verbatim>\<open>generate_workout\<close> always returns: no exception leaves it. When the generation
  call on the built prompt raises an exception \<open>err\<close>, it returns the string
  \<^verbatim>\<open>"An error occurred: "\<close> followed by \<^verbatim>\<open>str(err)\<close>, after showing the error on the
  page.
\<close>

theorem generate_workout_failure:
  "\<exists>prompt.
     workout_prompt_format fitness_level goal duration equipment = Inr prompt \<and>
     (\<exists>plan fx. generate_workout model fitness_level goal duration equipment = Inr (plan, fx)) \<and>
     (\<forall>err. model prompt = Inl err \<longrightarrow>
        generate_workout model fitness_level goal duration equipment =
          Inr (''An error occurred: '' @ exception_str err,
               [Generate_content prompt,
                St_error (cross_mark @ '' Error generating workout: '' @ exception_str err)]))"
proof -
  obtain prompt where p: "workout_prompt_format fitness_level goal duration equipment = Inr prompt"
    using workout_prompt_format_total by blast
  with generate_workout_total [of model fitness_level goal duration equipment]
  show ?thesis by (auto simp: generate_workout_Inl)
qed

theorem generate_workout_failure_witness:
  "\<exists>fx. generate_workout (\<lambda>prompt. Inl (Exception ''429 quota exceeded''))
          ''Beginner'' ''Weight Loss'' 30 ''Bodyweight'' =
        Inr (''An error occurred: 429 quota exceeded'', fx)"
  using generate_workout_failure
    [of "''Beginner''" "''Weight Loss''" 30 "''Bodyweight''"
        "\<lambda>prompt. Inl (Exception ''429 quota exceeded'')"]
  by auto

section \<open>The document renderer\<close>

text \<open>
  C3. The claim is that for every response text the emitted document holds the title,
  the four metadata lines and the whole body, in this order. For texts within Latin-1
  the code does so (lemma \<open>create_pdf_document\<close>). For a body with any other character
  it does not: with the inputs (Beginner, Weight Loss, 30, Bodyweight) and a body that
  is the bullet U+2022 followed by \<^verbatim>\<open> 10 squats\<close>, \<^verbatim>\<open>create_pdf\<close> raises, and stores
  no document, at every clock reading and in every state.
\<close>

theorem create_pdf_bullet_body:
  "create_pdf now w ([CHR 0xE2, CHR 0x80, CHR 0xA2] @ '' 10 squats'')
     ''Beginner'' ''Weight Loss'' 30 ''Bodyweight'' =
   Inl (UnicodeEncodeError ([CHR 0xE2, CHR 0x80, CHR 0xA2] @ '' 10 squats''))"
  by (rule create_pdf_Inl_plan) (simp_all add: latin1_Cons latin1_Nil)

section \<open>The file name\<close>

text \<open>
  C4, the claim as it is stated. The name embeds the local wall-clock time, which
  repeats when daylight saving time ends. On the New York clock of 3 November 2024, a
  call made at 05:30 UTC and a call made one hour later, at 06:30 UTC, both read
  01:30:00, and both produce the name \<^verbatim>\<open>Workout_Plan_20241103_013000.pdf\<close>.
\<close>

theorem dst_fold_counterexample:
  "(1730611800000000::nat) + 1000000 \<le> 1730615400000000 \<and>
   map_sum id fst
     (create_pdf (new_york_2024_11_03 1730611800000000)
        \<lparr>workout_history = Some [], disk = Map.empty\<rparr>
        ''Do 10 squats.'' ''Beginner'' ''Weight Loss'' 30 ''Bodyweight'') =
     Inr ''Workout_Plan_20241103_013000.pdf'' \<and>
   map_sum id fst
     (create_pdf (new_york_2024_11_03 1730615400000000)
        \<lparr>workout_history = Some [], disk = Map.empty\<rparr>
        ''Hold a plank.'' ''Advanced'' ''Endurance'' 45 ''Dumbbells'') =
     Inr ''Workout_Plan_20241103_013000.pdf''"
proof -
  have r1: "new_york_2024_11_03 1730611800000000 =
      \<lparr>year = 2024, month = 11, day = 3, hour = 1, minute = 30, second = 0, microsecond = 0\<rparr>"
    and r2: "new_york_2024_11_03 1730615400000000 =
      \<lparr>year = 2024, month = 11, day = 3, hour = 1, minute = 30, second = 0, microsecond = 0\<rparr>"
    by (simp_all add: new_york_2024_11_03_def Let_def)
  have l1: "list_all latin1
      (doc_text (workout_pdf ''Do 10 squats.'' ''Beginner'' ''Weight Loss'' 30 ''Bodyweight''))"
    and l2: "list_all latin1
      (doc_text (workout_pdf ''Hold a plank.'' ''Advanced'' ''Endurance'' 45 ''Dumbbells''))"
    by (simp_all add: doc_text_workout_pdf latin1_def str_int_def str_nat_2 digit_char_def)
  show ?thesis
    by (simp add: r1 r2 create_pdf_latin1 [OF l1] create_pdf_latin1 [OF l2]
        strftime_file zpad_2 zpad_4 digit_char_def)
qed

text \<open>
  C4, amended. Every file name that \<^verbatim>\<open>create_pdf\<close> produces is \<^verbatim>\<open>Workout_Plan_\<close>, eight
  digits, an underscore, six digits and \<^verbatim>\<open>.pdf\<close>: the fourteen digits of the time stamp
  \<^verbatim>\<open>YYYYMMDD_HHMMSS\<close>, which read back as the year, month, day, hour, minute and second
  of the clock reading. Two calls whose clock readings are at least one second apart
  produce different names, whatever their other arguments.
\<close>

theorem create_pdf_file_name:
  assumes "clock_reading now" "clock_reading now'"
  shows
    "(create_pdf now w workout_plan fitness_level goal duration equipment = Inr (filename, w1) \<longrightarrow>
        (\<exists>ymd hms.
           filename = ''Workout_Plan_'' @ ymd @ ''_'' @ hms @ ''.pdf'' \<and>
           length ymd = 8 \<and> list_all is_digit ymd \<and>
           length hms = 6 \<and> list_all is_digit hms \<and>
           read_nat (take 4 ymd) = year now \<and>
           read_nat (take 2 (drop 4 ymd)) = month now \<and>
           read_nat (drop 6 ymd) = day now \<and>
           read_nat (take 2 hms) = hour now \<and>
           read_nat (take 2 (drop 2 hms)) = minute now \<and>
           read_nat (drop 4 hms) = second now)) \<and>
     (total_microseconds now + 1000000 \<le> total_microseconds now' \<longrightarrow>
      create_pdf now w workout_plan fitness_level goal duration equipment = Inr (filename, w1) \<longrightarrow>
      create_pdf now' w' workout_plan' fitness_level' goal' duration' equipment' =
        Inr (filename', w1') \<longrightarrow>
      filename \<noteq> filename')"
proof (intro conjI impI notI)
  note v = clock_readingD [OF assms(1)]
  assume "create_pdf now w workout_plan fitness_level goal duration equipment = Inr (filename, w1)"
  from create_pdf_Inr [OF this]
  have f: "filename = ''Workout_Plan_'' @
      (zpad 4 (year now) @ zpad 2 (month now) @ zpad 2 (day now)) @ ''_'' @
      (zpad 2 (hour now) @ zpad 2 (minute now) @ zpad 2 (second now)) @ ''.pdf''"
    by (simp add: strftime_file)
  from v have vd: "valid_datetime now" and y: "1000 \<le> year now" by simp_all
  show "\<exists>ymd hms.
           filename = ''Workout_Plan_'' @ ymd @ ''_'' @ hms @ ''.pdf'' \<and>
           length ymd = 8 \<and> list_all is_digit ymd \<and>
           length hms = 6 \<and> list_all is_digit hms \<and>
           read_nat (take 4 ymd) = year now \<and>
           read_nat (take 2 (drop 4 ymd)) = month now \<and>
           read_nat (drop 6 ymd) = day now \<and>
           read_nat (take 2 hms) = hour now \<and>
           read_nat (take 2 (drop 2 hms)) = minute now \<and>
           read_nat (drop 4 hms) = second now"
    using f read_nat_zpad_parts [OF vd y]
    by (intro exI [of _ "zpad 4 (year now) @ zpad 2 (month now) @ zpad 2 (day now)"]
        exI [of _ "zpad 2 (hour now) @ zpad 2 (minute now) @ zpad 2 (second now)"]) blast
next
  assume apart: "total_microseconds now + 1000000 \<le> total_microseconds now'"
    and c: "create_pdf now w workout_plan fitness_level goal duration equipment = Inr (filename, w1)"
    and c': "create_pdf now' w' workout_plan' fitness_level' goal' duration' equipment' =
        Inr (filename', w1')"
    and same: "filename = filename'"
  note v = clock_readingD [OF assms(1)] and v' = clock_readingD [OF assms(2)]
  from create_pdf_Inr [OF c] create_pdf_Inr [OF c'] same
  have "strftime ''%Y%m%d_%H%M%S'' now = strftime ''%Y%m%d_%H%M%S'' now'"
    by simp
  from strftime_file_inject [OF _ _ _ _ this] v v'
  have "year now = year now' \<and> month now = month now' \<and> day now = day now' \<and>
         hour now = hour now' \<and> minute now = minute now' \<and> second now = second now'"
    by blast
  with valid_datetime_bounds(7) [of now'] v'
  have "total_microseconds now' < total_microseconds now + 1000000"
    by (intro total_microseconds_same_second) simp_all
  with apart show False by simp
qed

theorem create_pdf_file_name_witness:
  "create_pdf
     \<lparr>year = 2024, month = 2, day = 29, hour = 23, minute = 59, second = 59, microsecond = 250000\<rparr>
     \<lparr>workout_history = Some [], disk = Map.empty\<rparr>
     ''Do 10 squats.'' ''Beginner'' ''Weight Loss'' 30 ''Bodyweight'' =
   Inr (''Workout_Plan_20240229_235959.pdf'',
        \<lparr>workout_history = Some [],
         disk = [''Workout_Plan_20240229_235959.pdf'' \<mapsto>
                  workout_pdf ''Do 10 squats.'' ''Beginner'' ''Weight Loss'' 30 ''Bodyweight'']\<rparr>) \<and>
   create_pdf
     \<lparr>year = 2024, month = 3, day = 1, hour = 0, minute = 0, second = 0, microsecond = 250000\<rparr>
     \<lparr>workout_history = Some [], disk = Map.empty\<rparr>
     ''Do 10 squats.'' ''Beginner'' ''Weight Loss'' 30 ''Bodyweight'' =
   Inr (''Workout_Plan_20240301_000000.pdf'',
        \<lparr>workout_history = Some [],
         disk = [''Workout_Plan_20240301_000000.pdf'' \<mapsto>
                  workout_pdf ''Do 10 squats.'' ''Beginner'' ''Weight Loss'' 30 ''Bodyweight'']\<rparr>) \<and>
   ''Workout_Plan_20240229_235959.pdf'' \<noteq> ''Workout_Plan_20240301_000000.pdf''"
proof -
  let ?a = "\<lparr>year = 2024, month = 2, day = 29, hour = 23, minute = 59, second = 59, microsecond = 250000\<rparr>"
  let ?b = "\<lparr>year = 2024, month = 3, day = 1, hour = 0, minute = 0, second = 0, microsecond = 250000\<rparr>"
  let ?w = "\<lparr>workout_history = Some [], disk = Map.empty\<rparr>"
  have va: "clock_reading ?a" and vb: "clock_reading ?b"
    by (simp_all add: clock_reading_def valid_datetime_def days_in_month_def is_leap_def)
  have apart: "total_microseconds ?a + 1000000 \<le> total_microseconds ?b"
    by (simp add: total_microseconds_def toordinal_def days_before_year_def
        days_before_month_def days_in_month_def is_leap_def)
  have l: "list_all latin1
      (doc_text (workout_pdf ''Do 10 squats.'' ''Beginner'' ''Weight Loss'' 30 ''Bodyweight''))"
    by (simp add: doc_text_workout_pdf latin1_def str_int_def str_nat_2 digit_char_def)
  have ca: "create_pdf ?a ?w ''Do 10 squats.'' ''Beginner'' ''Weight Loss'' 30 ''Bodyweight'' =
      Inr (''Workout_Plan_20240229_235959.pdf'',
        \<lparr>workout_history = Some [],
         disk = [''Workout_Plan_20240229_235959.pdf'' \<mapsto>
                  workout_pdf ''Do 10 squats.'' ''Beginner'' ''Weight Loss'' 30 ''Bodyweight'']\<rparr>)"
    and cb: "create_pdf ?b ?w ''Do 10 squats.'' ''Beginner'' ''Weight Loss'' 30 ''Bodyweight'' =
      Inr (''Workout_Plan_20240301_000000.pdf'',
        \<lparr>workout_history = Some [],
         disk = [''Workout_Plan_20240301_000000.pdf'' \<mapsto>
                  workout_pdf ''Do 10 squats.'' ''Beginner'' ''Weight Loss'' 30 ''Bodyweight'']\<rparr>)"
    by (simp_all add: create_pdf_latin1 [OF l] strftime_file zpad_2 zpad_4 digit_char_def)
  from create_pdf_file_name [OF va vb, THEN conjunct2, rule_format, OF apart ca cb] ca cb
  show ?thesis by blast
qed

section \<open>The duration\<close>

text \<open>
  C5. Whatever the user does with the number input (stepper buttons, typed numbers),
  the duration it holds is an integer from 10 to 120. Its rendering is the decimal
  numeral of that integer (digits only, reading back as the same number). A submission
  with it sends a prompt holding that rendering, and appends a history entry that
  keeps the integer itself and that the history view shows with that rendering in its
  \<^verbatim>\<open>Duration:\<close> line; and every document that \<^verbatim>\<open>create_pdf\<close> stores for this duration
  has that rendering in its \<^verbatim>\<open>Duration:\<close> line.
\<close>

theorem duration_rendered:
  assumes "duration = duration_input events"
  shows "10 \<le> duration \<and> duration \<le> 120 \<and>
     list_all is_digit (str_int duration) \<and>
     int (read_nat (str_int duration)) = duration \<and>
     (\<exists>oc w' fx a b.
        main model now1 now2 fitness_level goal duration equipment True w = (oc, w', fx) \<and>
        requests fx = [a @ ''The workout should last '' @ str_int duration @ '' minutes'' @ b] \<and>
        entry_duration (last (history w')) = duration \<and>
        St_write (''**Duration:** '' @ str_int duration @ '' minutes'')
          \<in> set (history_view (history w'))) \<and>
     (\<forall>now0 w0 workout_plan filename w1.
        create_pdf now0 w0 workout_plan fitness_level goal duration equipment =
          Inr (filename, w1) \<longrightarrow>
        (\<exists>pdf. disk w1 filename = Some pdf \<and>
           doc_text pdf ! 3 = ''Duration: '' @ str_int duration @ '' minutes''))"
proof -
  from assms duration_input_bounds [of events]
  have range: "10 \<le> duration" "duration \<le> 120" by simp_all
  then have s: "str_int duration = str_nat (nat duration)" by (simp add: str_int_nonneg)
  have digits: "list_all is_digit (str_int duration)"
    unfolding s by (rule is_digit_str_nat)
  have rb: "int (read_nat (str_int duration)) = duration"
    using range by (simp add: s read_nat_str_nat)
  let ?a = "''Create a personalized workout plan for a '' @ fitness_level @
            '' individual whose goal is '' @ goal @ ''. ''"
  let ?b = "'' and use '' @ equipment @
            '' equipment. Provide step-by-step exercises with sets, reps, and rest intervals.''"
  let ?prompt = "?a @ ''The workout should last '' @ str_int duration @ '' minutes'' @ ?b"
  have p: "workout_prompt_format fitness_level goal duration equipment = Inr ?prompt"
    by (rule prompt_duration_part)
  from generate_workout_requests [OF p, of model] obtain plan gfx
    where gw: "generate_workout model fitness_level goal duration equipment = Inr (plan, gfx)"
      and rq: "requests gfx = [?prompt]" by blast
  let ?entry = "\<lparr>entry_plan = plan, entry_fitness_level = fitness_level, entry_goal = goal,
                entry_duration = duration, entry_equipment = equipment,
                entry_date = strftime ''%Y-%m-%d %H:%M:%S'' now1\<rparr>"
  from main_submit [OF gw, of now1 now2 w] obtain oc w' rest where
    m: "main model now1 now2 fitness_level goal duration equipment True w =
      (oc, w',
       [St_spinner ''Generating your workout plan...''] @ gfx @
       [St_success (check_mark @ '' Workout plan generated successfully!''),
        St_subheader ''Your Workout Plan'',
        St_markdown plan] @ rest)" and r: "requests rest = []"
    and h: "history w' = history w @ [?entry]"
    by blast
  let ?fx = "[St_spinner ''Generating your workout plan...''] @ gfx @
       [St_success (check_mark @ '' Workout plan generated successfully!''),
        St_subheader ''Your Workout Plan'',
        St_markdown plan] @ rest"
  have rf: "requests ?fx = [?prompt]"
    using rq r by (simp add: requests_Cons requests_append requests_Nil)
  have hist: "entry_duration (last (history w')) = duration"
    by (simp add: h)
  have wr: "St_write (''**Duration:** '' @ str_int duration @ '' minutes'')
      \<in> set (history_view (history w'))"
    unfolding h using history_view_last_duration [of ?entry "history w"] by simp
  from m rf hist wr have run:
    "\<exists>oc w' fx a b.
        main model now1 now2 fitness_level goal duration equipment True w = (oc, w', fx) \<and>
        requests fx = [a @ ''The workout should last '' @ str_int duration @ '' minutes'' @ b] \<and>
        entry_duration (last (history w')) = duration \<and>
        St_write (''**Duration:** '' @ str_int duration @ '' minutes'')
          \<in> set (history_view (history w'))"
    by blast
  have doc: "\<forall>now0 w0 workout_plan filename w1.
        create_pdf now0 w0 workout_plan fitness_level goal duration equipment =
          Inr (filename, w1) \<longrightarrow>
        (\<exists>pdf. disk w1 filename = Some pdf \<and>
           doc_text pdf ! 3 = ''Duration: '' @ str_int duration @ '' minutes'')"
  proof (intro allI impI)
    fix now0 w0 workout_plan filename w1
    assume "create_pdf now0 w0 workout_plan fitness_level goal duration equipment =
          Inr (filename, w1)"
    from create_pdf_Inr [OF this]
    have "disk w1 filename = Some (workout_pdf workout_plan fitness_level goal duration equipment)"
      by simp
    then show "\<exists>pdf. disk w1 filename = Some pdf \<and>
           doc_text pdf ! 3 = ''Duration: '' @ str_int duration @ '' minutes''"
      by (simp add: doc_text_workout_pdf)
  qed
  from range digits rb run doc show ?thesis by blast
qed

theorem duration_rendered_witness:
  "duration_input [Increment, Commit 200, Commit 117, Increment, Decrement] = 112 \<and>
   (10::int) \<le> 112 \<and> (112::int) \<le> 120 \<and>
   list_all is_digit (str_int 112) \<and> int (read_nat (str_int 112)) = 112"
proof -
  have h: "112 = duration_input [Increment, Commit 200, Commit 117, Increment, Decrement]"
    by (simp add: duration_input_def number_input_def)
  from duration_rendered [OF h] h show ?thesis by simp
qed

section \<open>The history\<close>

text \<open>
  C6. A submission (a run with the button pressed) appends exactly one entry to the
  history and leaves the entries before it as they were, also when the run ends at
  line 130 with an exception; the new entry holds the inputs of this submission, the
  clock reading of line 123 and the text that \<^verbatim>\<open>generate_workout\<close> returned. A run
  without submission leaves the history as it was. Two submissions, the first of them
  on an empty history, give a history of length 2, the first entry with the inputs,
  time and text of the first submission and the second with those of the second.
\<close>

theorem submission_appends_entry:
  "\<exists>plan gfx oc w1 fx.
     generate_workout model fitness_level goal duration equipment = Inr (plan, gfx) \<and>
     main model now1 now2 fitness_level goal duration equipment True w = (oc, w1, fx) \<and>
     history w1 = history w @
       [\<lparr>entry_plan = plan, entry_fitness_level = fitness_level, entry_goal = goal,
         entry_duration = duration, entry_equipment = equipment,
         entry_date = strftime ''%Y-%m-%d %H:%M:%S'' now1\<rparr>] \<and>
     (\<exists>oc0 w0 fx0.
        main model0 now10 now20 fitness_level0 goal0 duration0 equipment0 False w = (oc0, w0, fx0) \<and>
        history w0 = history w) \<and>
     (history w = [] \<longrightarrow>
        (\<exists>plan' gfx' oc' w2 fx'.
           generate_workout model' fitness_level' goal' duration' equipment' = Inr (plan', gfx') \<and>
           main model' now1' now2' fitness_level' goal' duration' equipment' True w1 =
             (oc', w2, fx') \<and>
           length (history w2) = 2 \<and>
           history w2 =
             [\<lparr>entry_plan = plan, entry_fitness_level = fitness_level, entry_goal = goal,
               entry_duration = duration, entry_equipment = equipment,
               entry_date = strftime ''%Y-%m-%d %H:%M:%S'' now1\<rparr>,
              \<lparr>entry_plan = plan', entry_fitness_level = fitness_level', entry_goal = goal',
               entry_duration = duration', entry_equipment = equipment',
               entry_date = strftime ''%Y-%m-%d %H:%M:%S'' now1'\<rparr>]))"
proof -
  obtain plan gfx
    where gw: "generate_workout model fitness_level goal duration equipment = Inr (plan, gfx)"
    using generate_workout_total by blast
  obtain plan' gfx'
    where gw': "generate_workout model' fitness_level' goal' duration' equipment' = Inr (plan', gfx')"
    using generate_workout_total by blast
  let ?e1 = "\<lparr>entry_plan = plan, entry_fitness_level = fitness_level, entry_goal = goal,
         entry_duration = duration, entry_equipment = equipment,
         entry_date = strftime ''%Y-%m-%d %H:%M:%S'' now1\<rparr>"
  let ?e2 = "\<lparr>entry_plan = plan', entry_fitness_level = fitness_level', entry_goal = goal',
               entry_duration = duration', entry_equipment = equipment',
               entry_date = strftime ''%Y-%m-%d %H:%M:%S'' now1'\<rparr>"
  from main_submit [OF gw, of now1 now2 w] obtain oc w1 fx
    where m1: "main model now1 now2 fitness_level goal duration equipment True w = (oc, w1, fx)"
      and h1: "history w1 = history w @ [?e1]"
    by blast
  from main_submit [OF gw', of now1' now2' w1] obtain oc' w2 fx'
    where m2: "main model' now1' now2' fitness_level' goal' duration' equipment' True w1 =
        (oc', w2, fx')"
      and h2: "history w2 = history w1 @ [?e2]"
    by blast
  note idle = main_idle_history [of model0 now10 now20 fitness_level0 goal0 duration0 equipment0 w]
  have two: "history w = [] \<longrightarrow>
        (\<exists>plan' gfx' oc' w2 fx'.
           generate_workout model' fitness_level' goal' duration' equipment' = Inr (plan', gfx') \<and>
           main model' now1' now2' fitness_level' goal' duration' equipment' True w1 =
             (oc', w2, fx') \<and>
           length (history w2) = 2 \<and>
           history w2 = [?e1, \<lparr>entry_plan = plan', entry_fitness_level = fitness_level',
               entry_goal = goal', entry_duration = duration', entry_equipment = equipment',
               entry_date = strftime ''%Y-%m-%d %H:%M:%S'' now1'\<rparr>])"
  proof
    assume "history w = []"
    with h1 h2 have "length (history w2) = 2 \<and> history w2 = [?e1, ?e2]"
      by simp
    with gw' m2 show "\<exists>plan' gfx' oc' w2 fx'.
           generate_workout model' fitness_level' goal' duration' equipment' = Inr (plan', gfx') \<and>
           main model' now1' now2' fitness_level' goal' duration' equipment' True w1 =
             (oc', w2, fx') \<and>
           length (history w2) = 2 \<and>
           history w2 = [?e1, \<lparr>entry_plan = plan', entry_fitness_level = fitness_level',
               entry_goal = goal', entry_duration = duration', entry_equipment = equipment',
               entry_date = strftime ''%Y-%m-%d %H:%M:%S'' now1'\<rparr>]"
      by (intro exI [of _ plan'] exI [of _ gfx'] exI [of _ oc'] exI [of _ w2] exI [of _ fx']) simp
  qed
  with gw m1 h1 idle show ?thesis
    by (intro exI [of _ plan] exI [of _ gfx] exI [of _ oc] exI [of _ w1] exI [of _ fx]) simp
qed

theorem submission_appends_entry_witness:
  "\<exists>oc0 w0 fx0 oc1 w1 fx1 oc2 w2 fx2.
     main (\<lambda>prompt. Inr ''Do 10 squats.'')
       \<lparr>year = 2024, month = 5, day = 17, hour = 9, minute = 29, second = 0, microsecond = 0\<rparr>
       \<lparr>year = 2024, month = 5, day = 17, hour = 9, minute = 29, second = 0, microsecond = 0\<rparr>
       ''Beginner'' ''Weight Loss'' 30 ''Bodyweight'' False
       \<lparr>workout_history = None, disk = Map.empty\<rparr> = (oc0, w0, fx0) \<and>
     main (\<lambda>prompt. Inr ''Do 10 squats.'')
       \<lparr>year = 2024, month = 5, day = 17, hour = 9, minute = 30, second = 0, microsecond = 0\<rparr>
       \<lparr>year = 2024, month = 5, day = 17, hour = 9, minute = 30, second = 1, microsecond = 0\<rparr>
       ''Beginner'' ''Weight Loss'' 30 ''Bodyweight'' True w0 = (oc1, w1, fx1) \<and>
     main (\<lambda>prompt. Inl (Exception ''timeout''))
       \<lparr>year = 2024, month = 5, day = 17, hour = 9, minute = 45, second = 0, microsecond = 0\<rparr>
       \<lparr>year = 2024, month = 5, day = 17, hour = 9, minute = 45, second = 2, microsecond = 0\<rparr>
       ''Advanced'' ''Endurance'' 45 ''Dumbbells'' True w1 = (oc2, w2, fx2) \<and>
     history w2 =
       [\<lparr>entry_plan = ''Do 10 squats.'', entry_fitness_level = ''Beginner'',
         entry_goal = ''Weight Loss'', entry_duration = 30, entry_equipment = ''Bodyweight'',
         entry_date = ''2024-05-17 09:30:00''\<rparr>,
        \<lparr>entry_plan = ''An error occurred: timeout'', entry_fitness_level = ''Advanced'',
         entry_goal = ''Endurance'', entry_duration = 45, entry_equipment = ''Dumbbells'',
         entry_date = ''2024-05-17 09:45:00''\<rparr>]"
proof -
  let ?m1 = "\<lambda>prompt :: string. Inr ''Do 10 squats.'' :: exception + string"
  let ?m2 = "\<lambda>prompt :: string. Inl (Exception ''timeout'') :: exception + string"
  let ?t0 = "\<lparr>year = 2024, month = 5, day = 17, hour = 9, minute = 29, second = 0, microsecond = 0\<rparr>"
  let ?t1 = "\<lparr>year = 2024, month = 5, day = 17, hour = 9, minute = 30, second = 0, microsecond = 0\<rparr>"
  let ?t1' = "\<lparr>year = 2024, month = 5, day = 17, hour = 9, minute = 30, second = 1, microsecond = 0\<rparr>"
  let ?t2 = "\<lparr>year = 2024, month = 5, day = 17, hour = 9, minute = 45, second = 0, microsecond = 0\<rparr>"
  let ?t2' = "\<lparr>year = 2024, month = 5, day = 17, hour = 9, minute = 45, second = 2, microsecond = 0\<rparr>"
  let ?fresh = "\<lparr>workout_history = None, disk = Map.empty\<rparr>"
  let ?w0 = "?fresh\<lparr>workout_history := Some (history ?fresh)\<rparr>"
  have load: "main ?m1 ?t0 ?t0 ''Beginner'' ''Weight Loss'' 30 ''Bodyweight'' False ?fresh =
      (Completed, ?w0, history_view (history ?fresh))"
    by (rule main_idle)
  have h0: "history ?w0 = []" by (simp add: history_def)
  obtain p1 where p1: "workout_prompt_format ''Beginner'' ''Weight Loss'' 30 ''Bodyweight'' = Inr p1"
    using workout_prompt_format_total by blast
  obtain p2 where p2: "workout_prompt_format ''Advanced'' ''Endurance'' 45 ''Dumbbells'' = Inr p2"
    using workout_prompt_format_total by blast
  have g1: "generate_workout ?m1 ''Beginner'' ''Weight Loss'' 30 ''Bodyweight'' =
      Inr (''Do 10 squats.'', [Generate_content p1])"
    by (rule generate_workout_Inr [OF p1]) simp
  have g2: "\<exists>gfx. generate_workout ?m2 ''Advanced'' ''Endurance'' 45 ''Dumbbells'' =
      Inr (''An error occurred: timeout'', gfx)"
    using generate_workout_Inl [where model = ?m2, OF p2, of "Exception ''timeout''"] by simp
  from submission_appends_entry
    [of ?m1 "''Beginner''" "''Weight Loss''" 30 "''Bodyweight''" ?t1 ?t1' ?w0
        ?m1 ?t0 ?t0 "''Beginner''" "''Weight Loss''" 30 "''Bodyweight''"
        ?m2 "''Advanced''" "''Endurance''" 45 "''Dumbbells''" ?t2 ?t2'] h0
  obtain plan gfx oc1 w1 fx1 plan' gfx' oc2 w2 fx2 where
    a: "generate_workout ?m1 ''Beginner'' ''Weight Loss'' 30 ''Bodyweight'' = Inr (plan, gfx)"
      "main ?m1 ?t1 ?t1' ''Beginner'' ''Weight Loss'' 30 ''Bodyweight'' True ?w0 = (oc1, w1, fx1)"
      "generate_workout ?m2 ''Advanced'' ''Endurance'' 45 ''Dumbbells'' = Inr (plan', gfx')"
      "main ?m2 ?t2 ?t2' ''Advanced'' ''Endurance'' 45 ''Dumbbells'' True w1 = (oc2, w2, fx2)"
      "history w2 =
             [\<lparr>entry_plan = plan, entry_fitness_level = ''Beginner'', entry_goal = ''Weight Loss'',
               entry_duration = 30, entry_equipment = ''Bodyweight'',
               entry_date = strftime ''%Y-%m-%d %H:%M:%S'' ?t1\<rparr>,
              \<lparr>entry_plan = plan', entry_fitness_level = ''Advanced'', entry_goal = ''Endurance'',
               entry_duration = 45, entry_equipment = ''Dumbbells'',
               entry_date = strftime ''%Y-%m-%d %H:%M:%S'' ?t2\<rparr>]"
    by auto
  from a(1) g1 have pl: "plan = ''Do 10 squats.''" by simp
  from a(3) g2 have pl': "plan' = ''An error occurred: timeout''" by auto
  have d1: "strftime ''%Y-%m-%d %H:%M:%S'' ?t1 = ''2024-05-17 09:30:00''"
    and d2: "strftime ''%Y-%m-%d %H:%M:%S'' ?t2 = ''2024-05-17 09:45:00''"
    by (simp_all add: strftime_entry zpad_2 zpad_4 digit_char_def)
  from load a(2) a(4) a(5) show ?thesis
    unfolding pl pl' d1 d2 by blast
qed

section \<open>A failed generation\<close>

text \<open>
  C7. The claim is that the error string stands for the plan wherever the plan is used,
  the body of the produced PDF included. The code shows the string and stores it in
  the history entry, but for an error text with a character outside Latin-1 it
  produces no PDF: when the generation call raises an exception whose text is
  \<^verbatim>\<open>503\<close>, the dash U+2014 and \<^verbatim>\<open>unavailable\<close>, separated by blanks, the run shows the
  error and the error string, appends the history entry, and then ends at line 130
  with the exception that \<^verbatim>\<open>create_pdf\<close> raises; the disk is as it was and no
  download is offered.
\<close>

theorem error_text_not_in_pdf:
  "main (\<lambda>prompt. Inl (Exception (''503 '' @ [CHR 0xE2, CHR 0x80, CHR 0x94] @ '' unavailable'')))
     \<lparr>year = 2024, month = 5, day = 17, hour = 9, minute = 30, second = 0, microsecond = 0\<rparr>
     \<lparr>year = 2024, month = 5, day = 17, hour = 9, minute = 30, second = 1, microsecond = 0\<rparr>
     ''Beginner'' ''Weight Loss'' 30 ''Bodyweight'' True
     \<lparr>workout_history = Some [], disk = Map.empty\<rparr> =
   (Uncaught (UnicodeEncodeError
      (''An error occurred: 503 '' @ [CHR 0xE2, CHR 0x80, CHR 0x94] @ '' unavailable'')),
    \<lparr>workout_history = Some
       [\<lparr>entry_plan = ''An error occurred: 503 '' @ [CHR 0xE2, CHR 0x80, CHR 0x94] @ '' unavailable'',
         entry_fitness_level = ''Beginner'', entry_goal = ''Weight Loss'',
         entry_duration = 30, entry_equipment = ''Bodyweight'',
         entry_date = ''2024-05-17 09:30:00''\<rparr>],
      disk = Map.empty\<rparr>,
    [St_spinner ''Generating your workout plan...'',
     Generate_content
       (''Create a personalized workout plan for a Beginner individual whose goal is '' @
        ''Weight Loss. The workout should last 30 minutes and use Bodyweight equipment. '' @
        ''Provide step-by-step exercises with sets, reps, and rest intervals.''),
     St_error (cross_mark @ '' Error generating workout: 503 '' @
        [CHR 0xE2, CHR 0x80, CHR 0x94] @ '' unavailable''),
     St_success (check_mark @ '' Workout plan generated successfully!''),
     St_subheader ''Your Workout Plan'',
     St_markdown (''An error occurred: 503 '' @ [CHR 0xE2, CHR 0x80, CHR 0x94] @ '' unavailable'')])"
proof -
  let ?model = "\<lambda>prompt :: string.
      Inl (Exception (''503 '' @ [CHR 0xE2, CHR 0x80, CHR 0x94] @ '' unavailable'')) :: exception + string"
  let ?prompt = "''Create a personalized workout plan for a Beginner individual whose goal is '' @
        ''Weight Loss. The workout should last 30 minutes and use Bodyweight equipment. '' @
        ''Provide step-by-step exercises with sets, reps, and rest intervals.''"
  let ?msg = "''An error occurred: '' @
      exception_str (Exception (''503 '' @ [CHR 0xE2, CHR 0x80, CHR 0x94] @ '' unavailable''))"
  have "workout_prompt_format ''Beginner'' ''Weight Loss'' 30 ''Bodyweight'' =
     Inr (''Create a personalized workout plan for a '' @ ''Beginner'' @
          '' individual whose goal is '' @ ''Weight Loss'' @
          ''. The workout should last '' @ str_int 30 @
          '' minutes and use '' @ ''Bodyweight'' @
          '' equipment. Provide step-by-step exercises with sets, reps, and rest intervals.'')"
    unfolding workout_prompt_format_def by (rule vformat_template) simp_all
  then have p: "workout_prompt_format ''Beginner'' ''Weight Loss'' 30 ''Bodyweight'' = Inr ?prompt"
    by (simp add: str_int_def str_nat_2 digit_char_def)
  have f: "?model ?prompt =
      Inl (Exception (''503 '' @ [CHR 0xE2, CHR 0x80, CHR 0x94] @ '' unavailable''))"
    by (rule refl)
  note gw = generate_workout_Inl [where model = ?model, OF p f]
  have l: "latin1 ''Beginner''" "latin1 ''Weight Loss''" "latin1 ''Bodyweight''" "\<not> latin1 ?msg"
    by (simp_all add: latin1_Cons latin1_Nil)
  have d: "strftime ''%Y-%m-%d %H:%M:%S''
      \<lparr>year = 2024, month = 5, day = 17, hour = 9, minute = 30, second = 0, microsecond = 0\<rparr> =
      ''2024-05-17 09:30:00''"
    by (simp add: strftime_entry zpad_2 zpad_4 digit_char_def)
  show ?thesis
    unfolding main_submit_raise [OF gw l] d by (simp add: history_def)
qed

section \<open>Failure kinds\<close>




end
